theory Spec2Isabelle
  imports Complex_Main "HOL-Library.Multiset"
begin

section \<open>Values, frames and the store\<close>

text \<open>
  The scripts move data between three representations: the cells of a pandas frame
  (what \<^verbatim>\<open>pd.read_csv\<close> returns), the values of a table of the store, and the
  tables that \<^verbatim>\<open>pd.read_sql\<close> returns. A stored value belongs to one of the
  storage classes NULL, INTEGER, REAL and TEXT. An INTEGER is a 64-bit signed integer,
  held as an \<^typ>\<open>int\<close> with the range checked where the store checks it. A REAL is
  a double, held as the rational number it denotes; the arithmetic of doubles is the
  store's own and not written out here (the infinities, which have no rational value,
  are not represented). A table keeps the declared type of each column, which decides
  how a comparison converts its operands.
\<close>

datatype val = NULL | INTEGER int | REAL rat | TEXT string

datatype cell = NaN | PyNone | PyBool bool | PyInt int | PyFloat rat | PyStr string

datatype dtype = Int64 | Float64 | Bool | Object

record dataframe =
  columns :: "(string \<times> dtype) list"
  body :: "cell list list"

record table =
  schema :: "(string \<times> string) list"
  primary_key :: "string list"
  foreign_keys :: "(string \<times> string \<times> string) list"
  rows :: "val list list"

type_synonym db = "string \<rightharpoonup> table"

datatype error =
  ReadError
  | DuplicateColumn
  | TableExists string
  | NoSuchTable string
  | NoSuchColumn
  | SyntaxError
  | IntegerOverflow
  | Refused

text \<open>
  Identifiers of the store are compared without regard to the case of ASCII letters.
\<close>

definition lower :: "char \<Rightarrow> char" where
  "lower c = (if 65 \<le> (of_char c :: nat) \<and> (of_char c :: nat) \<le> 90
              then char_of ((of_char c :: nat) + 32) else c)"

definition ident :: "string \<Rightarrow> string" where
  "ident s = map lower s"

section \<open>The schema initializer\<close>

text \<open>
  \<^verbatim>\<open>CREATE TABLE\<close>: with \<^verbatim>\<open>IF NOT EXISTS\<close> an existing table of that name is
  left as it is; without it, the statement fails on an existing table.
\<close>

definition create_table :: "bool \<Rightarrow> string \<Rightarrow> table \<Rightarrow> db \<Rightarrow> error + db" where
  "create_table if_not_exists name t conn =
     (case conn (ident name) of
        Some _ \<Rightarrow> if if_not_exists then Inr conn else Inl (TableExists name)
      | None \<Rightarrow> Inr (conn(ident name \<mapsto> t)))"

definition customers_ddl :: table where
  "customers_ddl = \<lparr>schema = [(''customer_id'', ''INTEGER''), (''name'', ''TEXT''),
                               (''city'', ''TEXT''), (''state'', ''TEXT'')],
                    primary_key = [''customer_id''],
                    foreign_keys = [],
                    rows = []\<rparr>"

definition orders_ddl :: table where
  "orders_ddl = \<lparr>schema = [(''order_id'', ''INTEGER''), (''customer_id'', ''INTEGER''),
                            (''order_date'', ''TEXT''), (''amount'', ''REAL''),
                            (''payment_type'', ''TEXT'')],
                 primary_key = [''order_id''],
                 foreign_keys = [(''customer_id'', ''customers'', ''customer_id'')],
                 rows = []\<rparr>"

definition products_ddl :: table where
  "products_ddl = \<lparr>schema = [(''product_id'', ''INTEGER''), (''category'', ''TEXT''),
                              (''price'', ''REAL'')],
                   primary_key = [''product_id''],
                   foreign_keys = [],
                   rows = []\<rparr>"

definition order_products_ddl :: table where
  "order_products_ddl = \<lparr>schema = [(''order_id'', ''INTEGER''), (''product_id'', ''INTEGER'')],
                         primary_key = [],
                         foreign_keys = [(''order_id'', ''orders'', ''order_id''),
                                         (''product_id'', ''products'', ''product_id'')],
                         rows = []\<rparr>"

definition sales_ddl :: table where
  "sales_ddl = \<lparr>schema = [(''seller_id'', ''INTEGER''), (''amount'', ''REAL'')],
                primary_key = [],
                foreign_keys = [],
                rows = []\<rparr>"

definition bind :: "error + 'a \<Rightarrow> ('a \<Rightarrow> error + 'b) \<Rightarrow> error + 'b" where
  "bind m f = (case m of Inl e \<Rightarrow> Inl e | Inr x \<Rightarrow> f x)"

definition create_tables :: "db \<Rightarrow> error + db" where
  "create_tables cursor =
     bind (create_table True ''customers'' customers_ddl cursor) (\<lambda>c1.
     bind (create_table True ''orders'' orders_ddl c1) (\<lambda>c2.
     bind (create_table True ''products'' products_ddl c2) (\<lambda>c3.
     bind (create_table True ''order_products'' order_products_ddl c3) (\<lambda>c4.
     create_table True ''sales'' sales_ddl c4))))"

section \<open>The bulk loaders\<close>

text \<open>
  \<^verbatim>\<open>pd.read_csv\<close> is the library's: the file system is a map from a path to the
  frame the library parses from the file there, and a path with no entry is a file that
  is missing or malformed, for which the call raises.
\<close>

type_synonym files = "string \<rightharpoonup> dataframe"

definition read_csv :: "files \<Rightarrow> string \<Rightarrow> error + dataframe" where
  "read_csv fs file_path = (case fs file_path of None \<Rightarrow> Inl ReadError | Some df \<Rightarrow> Inr df)"

text \<open>
  \<^verbatim>\<open>DataFrame.to_sql(name, con, if_exists='replace', index=False)\<close>: an existing
  table of that name is dropped, a table with the frame's columns (and no key of any
  kind) is created, and every row of the frame is inserted. The store refuses a table
  with two columns of the same name. Missing cells (NaN or None) are written as NULL.
\<close>

fun sql_type :: "dtype \<Rightarrow> string" where
  "sql_type Int64 = ''INTEGER''"
| "sql_type Float64 = ''REAL''"
| "sql_type Bool = ''INTEGER''"
| "sql_type Object = ''TEXT''"

fun sql_value :: "cell \<Rightarrow> val" where
  "sql_value NaN = NULL"
| "sql_value PyNone = NULL"
| "sql_value (PyBool b) = INTEGER (if b then 1 else 0)"
| "sql_value (PyInt i) = INTEGER i"
| "sql_value (PyFloat r) = REAL r"
| "sql_value (PyStr s) = TEXT s"

definition drop_table :: "string \<Rightarrow> db \<Rightarrow> db" where
  "drop_table name conn = conn(ident name := None)"

definition frame_table :: "dataframe \<Rightarrow> table" where
  "frame_table df = \<lparr>schema = map (\<lambda>(c, d). (c, sql_type d)) (columns df),
                     primary_key = [],
                     foreign_keys = [],
                     rows = map (map sql_value) (body df)\<rparr>"

definition to_sql_replace :: "dataframe \<Rightarrow> string \<Rightarrow> db \<Rightarrow> error + db" where
  "to_sql_replace df name conn =
     (if \<not> distinct (map (ident \<circ> fst) (columns df)) then Inl DuplicateColumn
      else create_table False name (frame_table df) (drop_table name conn))"

definition load_csv_to_table :: "files \<Rightarrow> string \<Rightarrow> string \<Rightarrow> db \<Rightarrow> error + db" where
  "load_csv_to_table fs file_path table_name conn =
     bind (read_csv fs file_path) (\<lambda>df. to_sql_replace df table_name conn)"

text \<open>
  The second script's loader. \<^verbatim>\<open>df.where(pd.notnull(df), None)\<close> keeps a cell
  that is not null and puts None elsewhere; the column names are then rewritten by three
  successive \<^verbatim>\<open>str.replace\<close> calls. The frame is written through the
  script's own connection, which \<^verbatim>\<open>mysql.connector.connect\<close> opened: what
  \<^verbatim>\<open>DataFrame.to_sql\<close> does on such a connection is not the first script's
  store, so the loader takes it as the parameter \<open>to_sql\<close>, over connections of any
  type.
\<close>

fun notnull :: "cell \<Rightarrow> bool" where
  "notnull NaN = False"
| "notnull PyNone = False"
| "notnull _ = True"

definition where_notnull :: "dataframe \<Rightarrow> dataframe" where
  "where_notnull df = df\<lparr>body := map (map (\<lambda>c. if notnull c then c else PyNone)) (body df)\<rparr>"

definition replace :: "char \<Rightarrow> char \<Rightarrow> string \<Rightarrow> string" where
  "replace old new s = map (\<lambda>c. if c = old then new else c) s"

definition clean :: "string \<Rightarrow> string" where
  "clean col = replace (CHR ''.'') (CHR ''_'') (replace (CHR ''-'') (CHR ''_'')
                 (replace (CHR '' '') (CHR ''_'') col))"

definition clean_columns :: "dataframe \<Rightarrow> dataframe" where
  "clean_columns df = df\<lparr>columns := map (\<lambda>(c, d). (clean c, d)) (columns df)\<rparr>"

definition process_csv ::
  "(dataframe \<Rightarrow> string \<Rightarrow> 'c \<Rightarrow> error + 'c) \<Rightarrow> files \<Rightarrow> string \<Rightarrow> string \<Rightarrow> 'c \<Rightarrow> error + 'c" where
  "process_csv to_sql fs file_path table_name conn =
     bind (read_csv fs file_path) (\<lambda>df.
       to_sql (clean_columns (where_notnull df)) table_name conn)"


text \<open>
  The first script's \<^verbatim>\<open>main\<close> loads its five files in this order, one after
  the other; a loader that raises ends the run.
\<close>

definition files_and_tables :: "(string \<times> string) list" where
  "files_and_tables = [(''customers.csv'', ''customers''), (''orders.csv'', ''orders''),
                       (''products.csv'', ''products''),
                       (''order_products.csv'', ''order_products''),
                       (''sales.csv'', ''sales'')]"

fun load_files :: "files \<Rightarrow> (string \<times> string) list \<Rightarrow> db \<Rightarrow> error + db" where
  "load_files fs [] conn = Inr conn"
| "load_files fs ((file_path, table_name) # rest) conn =
     bind (load_csv_to_table fs file_path table_name conn) (load_files fs rest)"

text \<open>The table of a given name after a run, when the run did not raise.\<close>

definition loaded :: "error + db \<Rightarrow> string \<Rightarrow> table option" where
  "loaded r name = (case r of Inl _ \<Rightarrow> None | Inr conn \<Rightarrow> conn (ident name))"

text \<open>The tables that \<^const>\<open>create_tables\<close> adds to a store that has none of them.\<close>

definition ddl :: db where
  "ddl = [''sales'' \<mapsto> sales_ddl] ++ ([''order_products'' \<mapsto> order_products_ddl] ++
         ([''products'' \<mapsto> products_ddl] ++ ([''orders'' \<mapsto> orders_ddl] ++
          [''customers'' \<mapsto> customers_ddl])))"

section \<open>The store's values at work\<close>

text \<open>
  A result table, as \<^verbatim>\<open>pd.read_sql\<close> returns it: the column labels and the
  rows.
\<close>

record result =
  names :: "string list"
  tuples :: "val list list"

text \<open>
  What the store computes by its own means is a parameter of the queries: its date
  functions \<^verbatim>\<open>strftime\<close> and \<^verbatim>\<open>date\<close>; the conversions between texts and
  numbers (\<open>fn_numeric\<close> reads a text that looks like a number as that number and
  leaves any other text as it is, \<open>fn_text\<close> writes a number as a text,
  \<open>text_numeric\<close> is the number that arithmetic reads off the front of a text); the
  subtraction, multiplication and division of doubles, and the sum of a list of values
  in floating point (each may give NULL, as the store does for a result that is not a
  number); the order in which the rows of the three-table join reach the aggregation,
  which the store's planner chooses; and the execution of a statement given as text,
  which may return a table and may change the store.
\<close>

record engine =
  fn_strftime :: "val \<Rightarrow> val \<Rightarrow> val"
  fn_date :: "val \<Rightarrow> string \<Rightarrow> val"
  fn_numeric :: "string \<Rightarrow> val"
  fn_text :: "val \<Rightarrow> val"
  text_numeric :: "string \<Rightarrow> val"
  fl_sub :: "rat \<Rightarrow> rat \<Rightarrow> val"
  fl_mul :: "rat \<Rightarrow> rat \<Rightarrow> val"
  fl_div :: "rat \<Rightarrow> rat \<Rightarrow> val"
  fn_sum :: "val list \<Rightarrow> val"
  join_order :: "db \<Rightarrow> (val \<times> val) list \<Rightarrow> (val \<times> val) list"
  fn_execute :: "string \<Rightarrow> db \<Rightarrow> error + (result \<times> db)"

fun numeric :: "engine \<Rightarrow> val \<Rightarrow> val" where
  "numeric E (TEXT s) =
     (case text_numeric E s of INTEGER i \<Rightarrow> INTEGER i | REAL r \<Rightarrow> REAL r | _ \<Rightarrow> INTEGER 0)"
| "numeric E v = v"

fun as_rat :: "val \<Rightarrow> rat" where
  "as_rat (INTEGER i) = of_int i"
| "as_rat (REAL r) = r"
| "as_rat _ = 0"

fun as_int :: "val \<Rightarrow> int" where
  "as_int (INTEGER i) = i"
| "as_int _ = 0"

fun is_integer :: "val \<Rightarrow> bool" where
  "is_integer (INTEGER i) = True"
| "is_integer _ = False"

fun is_real :: "val \<Rightarrow> bool" where
  "is_real (REAL r) = True"
| "is_real _ = False"

fun is_text :: "val \<Rightarrow> bool" where
  "is_text (TEXT s) = True"
| "is_text _ = False"

text \<open>
  An arithmetic operator yields NULL when an operand is NULL. On two INTEGERs it
  yields the INTEGER result when that fits in 64 bits, and otherwise, as on any other
  pair of operands, the result of the operation on doubles. Division by zero yields
  NULL, and the division of two INTEGERs truncates towards zero.
\<close>

definition in_range :: "int \<Rightarrow> bool" where
  "in_range i = (- (2 ^ 63) \<le> i \<and> i < 2 ^ 63)"

definition arith :: "(int \<Rightarrow> int \<Rightarrow> val) \<Rightarrow> (rat \<Rightarrow> rat \<Rightarrow> val) \<Rightarrow> engine \<Rightarrow> val \<Rightarrow> val \<Rightarrow> val" where
  "arith fi fr E a b =
     (if a = NULL \<or> b = NULL then NULL
      else let x = numeric E a; y = numeric E b in
        if is_integer x \<and> is_integer y then fi (as_int x) (as_int y)
        else fr (as_rat x) (as_rat y))"

definition truncate_div :: "int \<Rightarrow> int \<Rightarrow> int" where
  "truncate_div i j = sgn i * sgn j * (\<bar>i\<bar> div \<bar>j\<bar>)"

definition sql_mul :: "engine \<Rightarrow> val \<Rightarrow> val \<Rightarrow> val" where
  "sql_mul E =
     arith (\<lambda>i j. if in_range (i * j) then INTEGER (i * j) else fl_mul E (of_int i) (of_int j))
           (fl_mul E) E"

definition sql_sub :: "engine \<Rightarrow> val \<Rightarrow> val \<Rightarrow> val" where
  "sql_sub E =
     arith (\<lambda>i j. if in_range (i - j) then INTEGER (i - j) else fl_sub E (of_int i) (of_int j))
           (fl_sub E) E"

definition sql_div :: "engine \<Rightarrow> val \<Rightarrow> val \<Rightarrow> val" where
  "sql_div E =
     arith (\<lambda>i j. if j = 0 then NULL
                   else if in_range (truncate_div i j) then INTEGER (truncate_div i j)
                   else fl_div E (of_int i) (of_int j))
           (\<lambda>r s. if s = 0 then NULL else fl_div E r s) E"

text \<open>
  The order of the store: NULL first, then the numbers by their value, then the texts
  byte by byte. \<^verbatim>\<open>GROUP BY\<close>, \<^verbatim>\<open>DISTINCT\<close> and \<^verbatim>\<open>PARTITION BY\<close> put
  together the rows whose values are equal in that order, an INTEGER and a REAL of the
  same value included, and all the NULLs: those are the rows with the same \<open>key\<close>.
\<close>

fun text_less :: "string \<Rightarrow> string \<Rightarrow> bool" where
  "text_less [] [] = False"
| "text_less [] (y # ys) = True"
| "text_less (x # xs) [] = False"
| "text_less (x # xs) (y # ys) =
     ((of_char x :: nat) < of_char y \<or> (x = y \<and> text_less xs ys))"

fun val_less :: "val \<Rightarrow> val \<Rightarrow> bool" where
  "val_less NULL NULL = False"
| "val_less NULL b = True"
| "val_less a NULL = False"
| "val_less (TEXT s) (TEXT t) = text_less s t"
| "val_less (TEXT s) b = False"
| "val_less a (TEXT t) = True"
| "val_less a b = (as_rat a < as_rat b)"

fun key :: "val \<Rightarrow> val" where
  "key (REAL r) = (if r = of_int \<lfloor>r\<rfloor> then INTEGER \<lfloor>r\<rfloor> else REAL r)"
| "key v = v"

text \<open>
  A comparison in a \<^verbatim>\<open>WHERE\<close>, \<^verbatim>\<open>ON\<close> or \<^verbatim>\<open>CASE WHEN\<close> first converts
  its operands. A column carries the affinity of its declared type; any other
  expression carries none. Between two columns the conversion is to numbers if either
  affinity is numeric, and none otherwise; between a column and another expression it is
  the column's. A conversion to numbers reads the texts that look like numbers as
  numbers; a conversion to text, which applies only if an operand is a text, writes the
  numbers as texts. The comparison then holds only when it is true, which it is not when
  an operand is NULL.
\<close>

datatype affinity = Integer_affinity | Text_affinity | Blob_affinity | Real_affinity | Numeric_affinity

fun starts :: "string \<Rightarrow> string \<Rightarrow> bool" where
  "starts [] s = True"
| "starts (p # ps) [] = False"
| "starts (p # ps) (c # cs) = (p = c \<and> starts ps cs)"

fun contains :: "string \<Rightarrow> string \<Rightarrow> bool" where
  "contains p [] = (p = [])"
| "contains p (c # cs) = (starts p (c # cs) \<or> contains p cs)"

definition affinity_of :: "string \<Rightarrow> affinity" where
  "affinity_of declared =
     (let d = ident declared in
      if contains ''int'' d then Integer_affinity
      else if contains ''char'' d \<or> contains ''clob'' d \<or> contains ''text'' d then Text_affinity
      else if contains ''blob'' d \<or> d = [] then Blob_affinity
      else if contains ''real'' d \<or> contains ''floa'' d \<or> contains ''doub'' d then Real_affinity
      else Numeric_affinity)"

fun is_numeric :: "affinity \<Rightarrow> bool" where
  "is_numeric Integer_affinity = True"
| "is_numeric Real_affinity = True"
| "is_numeric Numeric_affinity = True"
| "is_numeric _ = False"

type_synonym operand = "val \<times> affinity option"

fun comparison_affinity :: "affinity option \<Rightarrow> affinity option \<Rightarrow> affinity option" where
  "comparison_affinity (Some a) (Some b) =
     (if is_numeric a \<or> is_numeric b then Some Numeric_affinity else Some Blob_affinity)"
| "comparison_affinity (Some a) None = Some a"
| "comparison_affinity None b = b"

fun to_number :: "engine \<Rightarrow> val \<Rightarrow> val" where
  "to_number E (TEXT s) = fn_numeric E s"
| "to_number E v = v"

definition to_text :: "engine \<Rightarrow> val \<Rightarrow> val" where
  "to_text E v = (if is_integer v \<or> is_real v then fn_text E v else v)"

definition convert :: "engine \<Rightarrow> operand \<Rightarrow> operand \<Rightarrow> val \<times> val" where
  "convert E x y =
     (case comparison_affinity (snd x) (snd y) of
        None \<Rightarrow> (fst x, fst y)
      | Some a \<Rightarrow>
          if is_numeric a then (to_number E (fst x), to_number E (fst y))
          else if a = Text_affinity \<and> (is_text (fst x) \<or> is_text (fst y))
            then (to_text E (fst x), to_text E (fst y))
          else (fst x, fst y))"

definition sql_eq :: "engine \<Rightarrow> operand \<Rightarrow> operand \<Rightarrow> bool" where
  "sql_eq E x y = (case convert E x y of (a, b) \<Rightarrow> a \<noteq> NULL \<and> b \<noteq> NULL \<and> key a = key b)"

definition sql_gt :: "engine \<Rightarrow> operand \<Rightarrow> operand \<Rightarrow> bool" where
  "sql_gt E x y = (case convert E x y of (a, b) \<Rightarrow> a \<noteq> NULL \<and> b \<noteq> NULL \<and> val_less b a)"

definition sql_le :: "engine \<Rightarrow> operand \<Rightarrow> operand \<Rightarrow> bool" where
  "sql_le E x y = (case convert E x y of (a, b) \<Rightarrow> a \<noteq> NULL \<and> b \<noteq> NULL \<and> \<not> val_less b a)"

subsection \<open>Aggregates\<close>

text \<open>
  An aggregate skips the NULLs. \<^verbatim>\<open>SUM\<close> of no value is NULL. It reads a text
  that looks like a number as that number, and adds INTEGERs exactly for as long as it
  has seen nothing else and the sum fits in 64 bits; from the first value that is not an
  INTEGER, or the first sum that does not fit, it adds in floating point. It raises
  when a sum of INTEGERs did not fit, unless a value that is not an INTEGER came after.
\<close>

definition non_null :: "val list \<Rightarrow> val list" where
  "non_null xs = filter (\<lambda>v. v \<noteq> NULL) xs"

definition count_star :: "'a list \<Rightarrow> val" where
  "count_star xs = INTEGER (int (length xs))"

definition count_distinct :: "val list \<Rightarrow> val" where
  "count_distinct xs = count_star (remdups (map key (non_null xs)))"

datatype sum_state = Exact int | Approximate bool

fun sum_step :: "sum_state \<Rightarrow> val \<Rightarrow> sum_state" where
  "sum_step (Exact acc) (INTEGER i) =
     (if in_range (acc + i) then Exact (acc + i) else Approximate True)"
| "sum_step (Exact acc) v = Approximate False"
| "sum_step (Approximate overflow) (INTEGER i) = Approximate overflow"
| "sum_step (Approximate overflow) v = Approximate False"

definition sql_sum :: "engine \<Rightarrow> val list \<Rightarrow> error + val" where
  "sql_sum E xs =
     (let ys = map (to_number E) (non_null xs) in
      if ys = [] then Inr NULL
      else case foldl sum_step (Exact 0) ys of
             Exact acc \<Rightarrow> Inr (INTEGER acc)
           | Approximate True \<Rightarrow> Inl IntegerOverflow
           | Approximate False \<Rightarrow> Inr (fn_sum E ys))"

definition sql_min :: "val list \<Rightarrow> val" where
  "sql_min xs =
     (case non_null xs of
        [] \<Rightarrow> NULL
      | y # ys \<Rightarrow> fold (\<lambda>v m. if val_less v m then v else m) ys y)"

subsection \<open>Grouping and ordering\<close>

text \<open>
  The groups of a list of rows under a key: each group with its first row, from which a
  query reads the columns it selects beside the aggregates, and with its rows in the
  order of the list. The store forms the groups by sorting, so they come out in the
  order of their keys. A sort keeps the rows that it finds equal in the order they had.
\<close>

fun groups :: "('a \<Rightarrow> 'k) \<Rightarrow> 'a list \<Rightarrow> ('a \<times> 'a list) list" where
  "groups f [] = []"
| "groups f (x # xs) =
     (x, x # filter (\<lambda>y. f y = f x) xs) # groups f (filter (\<lambda>y. f y \<noteq> f x) xs)"

fun insort_by :: "('a \<Rightarrow> 'a \<Rightarrow> bool) \<Rightarrow> 'a \<Rightarrow> 'a list \<Rightarrow> 'a list" where
  "insort_by lt x [] = [x]"
| "insort_by lt x (y # ys) = (if lt y x then y # insort_by lt x ys else x # y # ys)"

definition sort_by :: "('a \<Rightarrow> 'a \<Rightarrow> bool) \<Rightarrow> 'a list \<Rightarrow> 'a list" where
  "sort_by lt xs = foldr (insort_by lt) xs []"

definition pair_less :: "val \<times> val \<Rightarrow> val \<times> val \<Rightarrow> bool" where
  "pair_less k l = (val_less (fst k) (fst l) \<or> (\<not> val_less (fst l) (fst k) \<and> val_less (snd k) (snd l)))"

definition sorted_groups :: "('k \<Rightarrow> 'k \<Rightarrow> bool) \<Rightarrow> ('a \<Rightarrow> 'k) \<Rightarrow> 'a list \<Rightarrow> ('a \<times> 'a list) list" where
  "sorted_groups lt f xs = sort_by (\<lambda>g h. lt (f (fst g)) (f (fst h))) (groups f xs)"

text \<open>The results of a list of computations, or the first error among them.\<close>

fun collect :: "('a \<Rightarrow> error + 'b) \<Rightarrow> 'a list \<Rightarrow> error + 'b list" where
  "collect f [] = Inr []"
| "collect f (x # xs) = bind (f x) (\<lambda>y. bind (collect f xs) (\<lambda>ys. Inr (y # ys)))"

subsection \<open>Reading a table\<close>

text \<open>
  A statement that names a table or a column that the store does not have raises;
  the tables are looked up before the columns. A query is read against the columns it
  names, whatever other columns the table has; a row too short for a column reads as
  NULL there. A double-quoted word of a statement, such as \<^verbatim>\<open>"%Y"\<close>, is the
  column of that name if the table has one, and the text itself otherwise.
\<close>

fun index_of :: "string \<Rightarrow> string list \<Rightarrow> nat option" where
  "index_of c [] = None"
| "index_of c (n # ns) = (if ident n = ident c then Some 0 else map_option Suc (index_of c ns))"

definition has_column :: "table \<Rightarrow> string \<Rightarrow> bool" where
  "has_column t c = (index_of c (map fst (schema t)) \<noteq> None)"

definition field :: "val list \<Rightarrow> nat \<Rightarrow> val" where
  "field r i = (if i < length r then r ! i else NULL)"

definition from_table :: "db \<Rightarrow> string \<Rightarrow> error + table" where
  "from_table conn name =
     (case conn (ident name) of None \<Rightarrow> Inl (NoSuchTable name) | Some t \<Rightarrow> Inr t)"

definition need :: "table \<Rightarrow> string list \<Rightarrow> error + unit" where
  "need t cs = (if list_all (has_column t) cs then Inr () else Inl NoSuchColumn)"

definition col :: "table \<Rightarrow> val list \<Rightarrow> string \<Rightarrow> val" where
  "col t r c = (case index_of c (map fst (schema t)) of None \<Rightarrow> NULL | Some i \<Rightarrow> field r i)"

definition col_affinity :: "table \<Rightarrow> string \<Rightarrow> affinity option" where
  "col_affinity t c =
     (case index_of c (map fst (schema t)) of
        None \<Rightarrow> None
      | Some i \<Rightarrow> Some (affinity_of (snd (schema t ! i))))"

definition operand :: "table \<Rightarrow> val list \<Rightarrow> string \<Rightarrow> operand" where
  "operand t r c = (col t r c, col_affinity t c)"

definition quoted :: "table \<Rightarrow> val list \<Rightarrow> string \<Rightarrow> val" where
  "quoted t r s = (if has_column t s then col t r s else TEXT s)"

section \<open>The query catalog\<close>

text \<open>
  Six statements of the catalog are written out here as what the store computes for
  them: the total sales per category and the percentage of installments (basic queries
  3 and 4), the percentage of the revenue per category (intermediate query 3), and the
  growth from year to year, the retention rate and the top customers of each year
  (advanced queries 3, 4 and 5). Each function is named after the variable that holds
  its table in the source.
\<close>

subsection \<open>Basic queries\<close>

text \<open>
  The rows of \<^verbatim>\<open>orders o JOIN order_products op ON o.order_id = op.order_id JOIN
  products p ON op.product_id = p.product_id\<close>, as the category and the amount of each.
\<close>

definition category_join :: "engine \<Rightarrow> db \<Rightarrow> error + (val \<times> val) list" where
  "category_join E conn =
     bind (from_table conn ''orders'') (\<lambda>orders.
     bind (from_table conn ''order_products'') (\<lambda>order_products.
     bind (from_table conn ''products'') (\<lambda>products.
     bind (need orders [''order_id'', ''amount'']) (\<lambda>_.
     bind (need order_products [''order_id'', ''product_id'']) (\<lambda>_.
     bind (need products [''product_id'', ''category'']) (\<lambda>_.
     Inr [(col products p ''category'', col orders x ''amount'').
            x \<leftarrow> rows orders, op \<leftarrow> rows order_products,
            sql_eq E (operand orders x ''order_id'') (operand order_products op ''order_id''),
            p \<leftarrow> rows products,
            sql_eq E (operand order_products op ''product_id'')
                     (operand products p ''product_id'')]))))))"

text \<open>
  \<^verbatim>\<open>SELECT p.category, SUM(o.amount) ... GROUP BY p.category\<close> over the rows of the
  join, in the order in which the store visits them.
\<close>

definition category_revenue :: "engine \<Rightarrow> db \<Rightarrow> error + (val \<times> val) list" where
  "category_revenue E conn =
     bind (category_join E conn) (\<lambda>js.
     collect (\<lambda>((category, amount), g).
                bind (sql_sum E (map snd g)) (\<lambda>total. Inr (category, total)))
       (sorted_groups val_less (key \<circ> fst) (join_order E conn js)))"

definition sales_per_category :: "engine \<Rightarrow> db \<Rightarrow> error + result" where
  "sales_per_category E conn =
     bind (category_revenue E conn) (\<lambda>cr.
     Inr \<lparr>names = [''category'', ''total_sales''],
          tuples = map (\<lambda>(category, total_sales). [category, total_sales]) cr\<rparr>)"

definition installments_percentage :: "engine \<Rightarrow> db \<Rightarrow> error + result" where
  "installments_percentage E conn =
     bind (from_table conn ''orders'') (\<lambda>orders.
     bind (need orders [''payment_type'']) (\<lambda>_.
     bind (sql_sum E (map (\<lambda>r. if sql_eq E (operand orders r ''payment_type'')
                                              (TEXT ''Installment'', None)
                                then INTEGER 1 else INTEGER 0) (rows orders))) (\<lambda>installments.
     Inr \<lparr>names = [''percentage_installments''],
          tuples = [[sql_div E (sql_mul E installments (REAL 100))
                               (count_star (rows orders))]]\<rparr>)))"

subsection \<open>Intermediate queries\<close>

text \<open>
  The scalar subquery \<^verbatim>\<open>(SELECT total FROM total_revenue)\<close> is computed when the
  first row of \<^verbatim>\<open>category_revenue\<close> needs it, and not at all when there is no such
  row.
\<close>

definition total_revenue :: "engine \<Rightarrow> db \<Rightarrow> error + val" where
  "total_revenue E conn =
     bind (from_table conn ''orders'') (\<lambda>orders.
     bind (need orders [''amount'']) (\<lambda>_.
     sql_sum E (map (\<lambda>r. col orders r ''amount'') (rows orders))))"

definition percentage_revenue_per_category :: "engine \<Rightarrow> db \<Rightarrow> error + result" where
  "percentage_revenue_per_category E conn =
     bind (category_revenue E conn) (\<lambda>cr.
     if cr = [] then Inr \<lparr>names = [''category'', ''percentage_revenue''], tuples = []\<rparr>
     else
       bind (total_revenue E conn) (\<lambda>total.
       Inr \<lparr>names = [''category'', ''percentage_revenue''],
            tuples = map (\<lambda>(category, category_total).
                            [category, sql_mul E (sql_div E category_total total) (INTEGER 100)])
                       cr\<rparr>))"

subsection \<open>Advanced queries\<close>

text \<open>
  \<^verbatim>\<open>strftime("%Y", order_date) AS year\<close>, and the term \<^verbatim>\<open>year\<close> of the
  \<^verbatim>\<open>GROUP BY\<close>: the store reads a name in a \<^verbatim>\<open>GROUP BY\<close> as a column of the
  table if there is one of that name, and as the result column otherwise.
\<close>

definition year_of :: "engine \<Rightarrow> table \<Rightarrow> val list \<Rightarrow> val" where
  "year_of E t r = fn_strftime E (quoted t r ''%Y'') (col t r ''order_date'')"

definition group_year :: "engine \<Rightarrow> table \<Rightarrow> val list \<Rightarrow> val" where
  "group_year E t r = (if has_column t ''year'' then col t r ''year'' else year_of E t r)"

definition yearly_sales :: "engine \<Rightarrow> db \<Rightarrow> error + (val \<times> val) list" where
  "yearly_sales E conn =
     bind (from_table conn ''orders'') (\<lambda>orders.
     bind (need orders [''order_date'', ''amount'']) (\<lambda>_.
     collect (\<lambda>(r, g). bind (sql_sum E (map (\<lambda>z. col orders z ''amount'') g)) (\<lambda>total_sales.
                          Inr (year_of E orders r, total_sales)))
       (sorted_groups val_less (\<lambda>r. key (group_year E orders r)) (rows orders))))"

text \<open>
  \<^verbatim>\<open>LAG(total_sales) OVER (ORDER BY year)\<close> is the total of the row before in the
  order of the years, and NULL for the first row.
\<close>

fun growth_rows :: "engine \<Rightarrow> val \<Rightarrow> (val \<times> val) list \<Rightarrow> val list list" where
  "growth_rows E previous [] = []"
| "growth_rows E previous ((year, total_sales) # rest) =
     [year, total_sales, previous,
      sql_div E (sql_mul E (sql_sub E total_sales previous) (REAL 100)) previous]
     # growth_rows E total_sales rest"

definition yearly_growth_rate :: "engine \<Rightarrow> db \<Rightarrow> error + result" where
  "yearly_growth_rate E conn =
     bind (yearly_sales E conn) (\<lambda>ys.
     Inr \<lparr>names = [''year'', ''total_sales'', ''previous_year_sales'', ''growth_rate''],
          tuples = growth_rows E NULL (sort_by (\<lambda>a b. val_less (fst a) (fst b)) ys)\<rparr>)"

definition first_purchase :: "table \<Rightarrow> (val \<times> val) list" where
  "first_purchase orders =
     map (\<lambda>(r, g). (col orders r ''customer_id'', sql_min (map (\<lambda>z. col orders z ''order_date'') g)))
       (sorted_groups val_less (\<lambda>r. key (col orders r ''customer_id'')) (rows orders))"

definition subsequent_purchases :: "engine \<Rightarrow> table \<Rightarrow> val list" where
  "subsequent_purchases E orders =
     map fst (groups key
       [f_customer.
          (f_customer, first_purchase_date) \<leftarrow> first_purchase orders,
          r \<leftarrow> rows orders,
          sql_eq E (f_customer, col_affinity orders ''customer_id'')
                   (operand orders r ''customer_id''),
          sql_gt E (operand orders r ''order_date'') (first_purchase_date, None)
            \<and> sql_le E (operand orders r ''order_date'')
                       (fn_date E first_purchase_date ''+6 months'', None)])"

text \<open>
  \<^verbatim>\<open>first_purchase LEFT JOIN subsequent_purchases\<close>: a row of the left side with no
  match on the right appears once, with NULL for the right side.
\<close>

definition retention_rate :: "engine \<Rightarrow> db \<Rightarrow> error + result" where
  "retention_rate E conn =
     bind (from_table conn ''orders'') (\<lambda>orders.
     bind (need orders [''customer_id'', ''order_date'']) (\<lambda>_.
     let joined = concat (map (\<lambda>(f_customer, first_purchase_date).
                    (let matches = [s \<leftarrow> subsequent_purchases E orders.
                                      sql_eq E (f_customer, col_affinity orders ''customer_id'')
                                               (s, col_affinity orders ''customer_id'')]
                     in if matches = [] then [(f_customer, NULL)]
                        else map (\<lambda>s. (f_customer, s)) matches))
                    (first_purchase orders))
     in Inr \<lparr>names = [''retention_rate''],
             tuples = [[sql_div E
                         (sql_mul E (count_distinct (map snd joined)) (REAL 100))
                         (count_distinct (map fst joined))]]\<rparr>))"

text \<open>
  \<^verbatim>\<open>ROW_NUMBER() OVER (PARTITION BY ... ORDER BY ...)\<close> numbers the rows of each
  partition from 1 in the order given.
\<close>

definition row_number :: "'a list \<Rightarrow> ('a \<times> nat) list" where
  "row_number xs = zip xs [1 ..< Suc (length xs)]"

definition yearly_spending :: "engine \<Rightarrow> db \<Rightarrow> error + (val \<times> val \<times> val) list" where
  "yearly_spending E conn =
     bind (from_table conn ''orders'') (\<lambda>orders.
     bind (need orders [''order_date'', ''customer_id'', ''amount'']) (\<lambda>_.
     collect (\<lambda>(r, g). bind (sql_sum E (map (\<lambda>z. col orders z ''amount'') g)) (\<lambda>total_spent.
                          Inr (year_of E orders r, col orders r ''customer_id'', total_spent)))
       (sorted_groups pair_less
          (\<lambda>r. (key (group_year E orders r), key (col orders r ''customer_id'')))
          (rows orders))))"

definition top_customers_per_year :: "engine \<Rightarrow> db \<Rightarrow> error + result" where
  "top_customers_per_year E conn =
     bind (yearly_spending E conn) (\<lambda>ys.
     Inr \<lparr>names = [''year'', ''customer_id'', ''total_spent''],
          tuples = concat (map (\<lambda>(r, g).
                     [[year, customer, total_spent].
                        ((year, customer, total_spent), rank) \<leftarrow>
                          row_number (sort_by (\<lambda>a b. val_less (snd (snd b)) (snd (snd a))) g),
                        rank \<le> 3])
                     (sorted_groups val_less (key \<circ> fst) ys))\<rparr>)"

subsection \<open>The statements\<close>

text \<open>
  The fifteen statements of the catalog, as the source writes them, each named after
  the variable that receives its table.
\<close>

definition unique_cities_query :: string where
  "unique_cities_query = ''SELECT DISTINCT city FROM customers''"

definition orders_2017_query :: string where
  "orders_2017_query = ''SELECT COUNT(*) AS order_count FROM orders WHERE strftime(\"%Y\", order_date) = \"2017\"''"

definition sales_per_category_query :: string where
  "sales_per_category_query =
     ''\<newline>'' @
     ''    SELECT p.category, SUM(o.amount) AS total_sales\<newline>'' @
     ''    FROM orders o\<newline>'' @
     ''    JOIN order_products op ON o.order_id = op.order_id\<newline>'' @
     ''    JOIN products p ON op.product_id = p.product_id\<newline>'' @
     ''    GROUP BY p.category\<newline>'' @
     ''    ''"

definition installments_percentage_query :: string where
  "installments_percentage_query =
     ''\<newline>'' @
     ''    SELECT\<newline>'' @
     ''        (SUM(CASE WHEN payment_type = 'Installment' THEN 1 ELSE 0 END) * 100.0 / COUNT(*)) AS percentage_installments\<newline>'' @
     ''    FROM orders\<newline>'' @
     ''    ''"

definition customers_by_state_query :: string where
  "customers_by_state_query = ''SELECT state, COUNT(*) AS customer_count FROM customers GROUP BY state''"

definition orders_per_month_2018_query :: string where
  "orders_per_month_2018_query =
     ''\<newline>'' @
     ''    SELECT strftime(\"%m\", order_date) AS month, COUNT(*) AS order_count\<newline>'' @
     ''    FROM orders\<newline>'' @
     ''    WHERE strftime(\"%Y\", order_date) = \"2018\"\<newline>'' @
     ''    GROUP BY month\<newline>'' @
     ''    ''"

definition avg_products_per_order_city_query :: string where
  "avg_products_per_order_city_query =
     ''\<newline>'' @
     ''    WITH order_counts AS (\<newline>'' @
     ''        SELECT o.order_id, c.city, COUNT(op.product_id) AS product_count\<newline>'' @
     ''        FROM orders o\<newline>'' @
     ''        JOIN order_products op ON o.order_id = op.order_id\<newline>'' @
     ''        JOIN customers c ON o.customer_id = c.customer_id\<newline>'' @
     ''        GROUP BY o.order_id, c.city\<newline>'' @
     ''    )\<newline>'' @
     ''    SELECT city, AVG(product_count) AS avg_products_per_order\<newline>'' @
     ''    FROM order_counts\<newline>'' @
     ''    GROUP BY city\<newline>'' @
     ''    ''"

definition percentage_revenue_per_category_query :: string where
  "percentage_revenue_per_category_query =
     ''\<newline>'' @
     ''    WITH total_revenue AS (\<newline>'' @
     ''        SELECT SUM(amount) AS total FROM orders\<newline>'' @
     ''    ),\<newline>'' @
     ''    category_revenue AS (\<newline>'' @
     ''        SELECT p.category, SUM(o.amount) AS category_total\<newline>'' @
     ''        FROM orders o\<newline>'' @
     ''        JOIN order_products op ON o.order_id = op.order_id\<newline>'' @
     ''        JOIN products p ON op.product_id = p.product_id\<newline>'' @
     ''        GROUP BY p.category\<newline>'' @
     ''    )\<newline>'' @
     ''    SELECT\<newline>'' @
     ''        category,\<newline>'' @
     ''        (category_total / (SELECT total FROM total_revenue)) * 100 AS percentage_revenue\<newline>'' @
     ''    FROM category_revenue\<newline>'' @
     ''    ''"

definition correlation_query :: string where
  "correlation_query =
     ''\<newline>'' @
     ''    WITH product_sales AS (\<newline>'' @
     ''        SELECT p.product_id, p.price, COUNT(op.order_id) AS purchase_count\<newline>'' @
     ''        FROM products p\<newline>'' @
     ''        JOIN order_products op ON p.product_id = op.product_id\<newline>'' @
     ''        GROUP BY p.product_id, p.price\<newline>'' @
     ''    )\<newline>'' @
     ''    SELECT\<newline>'' @
     ''        (SELECT SUM((price - (SELECT AVG(price) FROM product_sales)) * (purchase_count - (SELECT AVG(purchase_count) FROM product_sales)))\<newline>'' @
     ''         / (SQRT(SUM((price - (SELECT AVG(price) FROM product_sales)) * (price - (SELECT AVG(price) FROM product_sales))))\<newline>'' @
     ''            * SQRT(SUM((purchase_count - (SELECT AVG(purchase_count) FROM product_sales)) * (purchase_count - (SELECT AVG(purchase_count) FROM product_sales))))) AS correlation\<newline>'' @
     ''    FROM product_sales\<newline>'' @
     ''    ''"

definition revenue_per_seller_query :: string where
  "revenue_per_seller_query =
     ''\<newline>'' @
     ''    SELECT seller_id, SUM(amount) AS total_revenue\<newline>'' @
     ''    FROM sales\<newline>'' @
     ''    GROUP BY seller_id\<newline>'' @
     ''    ORDER BY total_revenue DESC\<newline>'' @
     ''    ''"

definition moving_avg_query :: string where
  "moving_avg_query =
     ''\<newline>'' @
     ''    WITH ranked_orders AS (\<newline>'' @
     ''        SELECT *,\<newline>'' @
     ''               ROW_NUMBER() OVER (PARTITION BY customer_id ORDER BY order_date) AS row_num\<newline>'' @
     ''        FROM orders\<newline>'' @
     ''    )\<newline>'' @
     ''    SELECT customer_id, order_date, amount,\<newline>'' @
     ''           AVG(amount) OVER (PARTITION BY customer_id ORDER BY row_num ROWS BETWEEN 2 PRECEDING AND CURRENT ROW) AS moving_avg\<newline>'' @
     ''    FROM ranked_orders\<newline>'' @
     ''    ''"

definition cumulative_sales_per_month_query :: string where
  "cumulative_sales_per_month_query =
     ''\<newline>'' @
     ''    WITH monthly_sales AS (\<newline>'' @
     ''        SELECT strftime(\"%Y-%m\", order_date) AS year_month, SUM(amount) AS monthly_sales\<newline>'' @
     ''        FROM orders\<newline>'' @
     ''        GROUP BY year_month\<newline>'' @
     ''    )\<newline>'' @
     ''    SELECT year_month, SUM(monthly_sales) AS cumulative_sales\<newline>'' @
     ''    FROM monthly_sales\<newline>'' @
     ''    GROUP BY strftime(\"%Y\", year_month), strftime(\"%m\", year_month)\<newline>'' @
     ''    ORDER BY year_month\<newline>'' @
     ''    ''"

definition yearly_growth_rate_query :: string where
  "yearly_growth_rate_query =
     ''\<newline>'' @
     ''    WITH yearly_sales AS (\<newline>'' @
     ''        SELECT strftime(\"%Y\", order_date) AS year, SUM(amount) AS total_sales\<newline>'' @
     ''        FROM orders\<newline>'' @
     ''        GROUP BY year\<newline>'' @
     ''    )\<newline>'' @
     ''    SELECT year,\<newline>'' @
     ''           total_sales,\<newline>'' @
     ''           LAG(total_sales) OVER (ORDER BY year) AS previous_year_sales,\<newline>'' @
     ''           (total_sales - LAG(total_sales) OVER (ORDER BY year)) * 100.0 / LAG(total_sales) OVER (ORDER BY year) AS growth_rate\<newline>'' @
     ''    FROM yearly_sales\<newline>'' @
     ''    ''"

definition retention_rate_query :: string where
  "retention_rate_query =
     ''\<newline>'' @
     ''    WITH first_purchase AS (\<newline>'' @
     ''        SELECT customer_id, MIN(order_date) AS first_purchase_date\<newline>'' @
     ''        FROM orders\<newline>'' @
     ''        GROUP BY customer_id\<newline>'' @
     ''    ),\<newline>'' @
     ''    subsequent_purchases AS (\<newline>'' @
     ''        SELECT DISTINCT f.customer_id\<newline>'' @
     ''        FROM first_purchase f\<newline>'' @
     ''        JOIN orders o ON f.customer_id = o.customer_id\<newline>'' @
     ''        WHERE o.order_date > f.first_purchase_date AND o.order_date <= date(f.first_purchase_date, '+6 months')\<newline>'' @
     ''    )\<newline>'' @
     ''    SELECT\<newline>'' @
     ''        (COUNT(DISTINCT subsequent_purchases.customer_id) * 100.0 / COUNT(DISTINCT first_purchase.customer_id)) AS retention_rate\<newline>'' @
     ''    FROM first_purchase\<newline>'' @
     ''    LEFT JOIN subsequent_purchases ON first_purchase.customer_id = subsequent_purchases.customer_id\<newline>'' @
     ''    ''"

definition top_customers_per_year_query :: string where
  "top_customers_per_year_query =
     ''\<newline>'' @
     ''    WITH yearly_spending AS (\<newline>'' @
     ''        SELECT strftime(\"%Y\", order_date) AS year, customer_id, SUM(amount) AS total_spent\<newline>'' @
     ''        FROM orders\<newline>'' @
     ''        GROUP BY year, customer_id\<newline>'' @
     ''    )\<newline>'' @
     ''    SELECT year, customer_id, total_spent\<newline>'' @
     ''    FROM (\<newline>'' @
     ''        SELECT year, customer_id, total_spent,\<newline>'' @
     ''               ROW_NUMBER() OVER (PARTITION BY year ORDER BY total_spent DESC) AS rank\<newline>'' @
     ''        FROM yearly_spending\<newline>'' @
     ''    )\<newline>'' @
     ''    WHERE rank <= 3\<newline>'' @
     ''    ''"
subsection \<open>Running the catalog\<close>

text \<open>
  The store reads a statement before it runs it. A statement whose opening and closing
  parentheses, outside quoted words and comments, are not equal in number is not a
  statement of the language, and the store refuses it.
\<close>

datatype mode = Code | Dash | Slash | Single | Double | Backquote | Bracket | Line | Block | Star

fun code_step :: "nat \<times> nat \<Rightarrow> char \<Rightarrow> mode \<times> nat \<times> nat" where
  "code_step (i, j) c =
     (if c = CHR 0x27 then (Single, i, j)
      else if c = CHR 0x22 then (Double, i, j)
      else if c = CHR 0x60 then (Backquote, i, j)
      else if c = CHR ''['' then (Bracket, i, j)
      else if c = CHR ''-'' then (Dash, i, j)
      else if c = CHR ''/'' then (Slash, i, j)
      else if c = CHR ''('' then (Code, Suc i, j)
      else if c = CHR '')'' then (Code, i, Suc j)
      else (Code, i, j))"

fun step :: "mode \<times> nat \<times> nat \<Rightarrow> char \<Rightarrow> mode \<times> nat \<times> nat" where
  "step (Code, n) c = code_step n c"
| "step (Dash, n) c = (if c = CHR ''-'' then (Line, n) else code_step n c)"
| "step (Slash, n) c = (if c = CHR ''*'' then (Block, n) else code_step n c)"
| "step (Single, n) c = (if c = CHR 0x27 then (Code, n) else (Single, n))"
| "step (Double, n) c = (if c = CHR 0x22 then (Code, n) else (Double, n))"
| "step (Backquote, n) c = (if c = CHR 0x60 then (Code, n) else (Backquote, n))"
| "step (Bracket, n) c = (if c = CHR '']'' then (Code, n) else (Bracket, n))"
| "step (Line, n) c = (if c = CHR 0x0A then (Code, n) else (Line, n))"
| "step (Block, n) c = (if c = CHR ''*'' then (Star, n) else (Block, n))"
| "step (Star, n) c =
     (if c = CHR ''/'' then (Code, n) else if c = CHR ''*'' then (Star, n) else (Block, n))"

definition parentheses :: "string \<Rightarrow> nat \<times> nat" where
  "parentheses sql = snd (foldl step (Code, 0, 0) sql)"

definition balanced :: "string \<Rightarrow> bool" where
  "balanced sql = (fst (parentheses sql) = snd (parentheses sql))"

text \<open>
  \<^verbatim>\<open>pd.read_sql(query, conn)\<close> has the store execute the statement on the
  connection and returns its table; a statement that the store refuses or fails on
  raises.
\<close>

definition read_sql :: "engine \<Rightarrow> string \<Rightarrow> db \<Rightarrow> error + (result \<times> db)" where
  "read_sql E query conn = (if balanced query then fn_execute E query conn else Inl SyntaxError)"

text \<open>
  The three functions of the catalog run their statements one after the other and print
  each table. A run is what was printed, the store it left, and the error that ended it,
  if one did.
\<close>

record run =
  printed :: "result list"
  store :: db
  raised :: "error option"

fun read_all :: "engine \<Rightarrow> string list \<Rightarrow> db \<Rightarrow> run" where
  "read_all E [] conn = \<lparr>printed = [], store = conn, raised = None\<rparr>"
| "read_all E (query # rest) conn =
     (case read_sql E query conn of
        Inl e \<Rightarrow> \<lparr>printed = [], store = conn, raised = Some e\<rparr>
      | Inr (r, conn1) \<Rightarrow>
          (let out = read_all E rest conn1 in out\<lparr>printed := r # printed out\<rparr>))"

definition basic_queries :: "engine \<Rightarrow> db \<Rightarrow> run" where
  "basic_queries E conn =
     read_all E [unique_cities_query, orders_2017_query, sales_per_category_query,
                 installments_percentage_query, customers_by_state_query] conn"

definition intermediate_queries :: "engine \<Rightarrow> db \<Rightarrow> run" where
  "intermediate_queries E conn =
     read_all E [orders_per_month_2018_query, avg_products_per_order_city_query,
                 percentage_revenue_per_category_query, correlation_query,
                 revenue_per_seller_query] conn"

definition advanced_queries :: "engine \<Rightarrow> db \<Rightarrow> run" where
  "advanced_queries E conn =
     read_all E [moving_avg_query, cumulative_sales_per_month_query, yearly_growth_rate_query,
                 retention_rate_query, top_customers_per_year_query] conn"

definition catalog :: "string list" where
  "catalog = [unique_cities_query, orders_2017_query, sales_per_category_query,
              installments_percentage_query, customers_by_state_query,
              orders_per_month_2018_query, avg_products_per_order_city_query,
              percentage_revenue_per_category_query, correlation_query,
              revenue_per_seller_query,
              moving_avg_query, cumulative_sales_per_month_query, yearly_growth_rate_query,
              retention_rate_query, top_customers_per_year_query]"

text \<open>
  \<^verbatim>\<open>main\<close> creates the tables, loads the five files, and runs the three functions
  in turn; an error in one of them ends the run there.
\<close>

definition then_run :: "run \<Rightarrow> (db \<Rightarrow> run) \<Rightarrow> run" where
  "then_run out f =
     (if raised out = None
      then (let after = f (store out) in after\<lparr>printed := printed out @ printed after\<rparr>)
      else out)"

definition main :: "files \<Rightarrow> engine \<Rightarrow> db \<Rightarrow> error + run" where
  "main fs E conn =
     bind (create_tables conn) (\<lambda>c0.
     bind (load_files fs files_and_tables c0) (\<lambda>c1.
     Inr (then_run (then_run (basic_queries E c1) (intermediate_queries E))
                   (advanced_queries E))))"

text \<open>
  A statement that begins with \<^verbatim>\<open>SELECT\<close> or \<^verbatim>\<open>WITH\<close> and has none of the
  words \<^verbatim>\<open>INSERT\<close>, \<^verbatim>\<open>UPDATE\<close>, \<^verbatim>\<open>DELETE\<close> and \<^verbatim>\<open>REPLACE\<close> is a
  query: the language has no other statement of that form.
\<close>

definition word_char :: "char \<Rightarrow> bool" where
  "word_char c = (let n = (of_char (lower c) :: nat) in
                  (97 \<le> n \<and> n \<le> 122) \<or> (48 \<le> n \<and> n \<le> 57) \<or> n = 95)"

fun words :: "string \<Rightarrow> string \<Rightarrow> string list" where
  "words w [] = (if w = [] then [] else [w])"
| "words w (c # cs) =
     (if word_char c then words (w @ [lower c]) cs
      else if w = [] then words [] cs
      else w # words [] cs)"

definition reads_only :: "string \<Rightarrow> bool" where
  "reads_only sql =
     (case words [] sql of
        [] \<Rightarrow> False
      | w # ws \<Rightarrow> (w = ''select'' \<or> w = ''with'')
                  \<and> list_all (\<lambda>v. v \<noteq> ''insert'' \<and> v \<noteq> ''update'' \<and> v \<noteq> ''delete''
                                  \<and> v \<noteq> ''replace'') (w # ws))"

text \<open>The table that a statement gives on a store, if it gives one.\<close>

definition table_of :: "engine \<Rightarrow> db \<Rightarrow> string \<Rightarrow> result option" where
  "table_of E conn query = (case read_sql E query conn of Inl e \<Rightarrow> None | Inr (r, c) \<Rightarrow> Some r)"

section \<open>Examples\<close>

text \<open>
  An engine for the examples. It reads the year and the month off a date written
  \<^verbatim>\<open>YYYY-MM-DD\<close>, as the store does for such a date, and its \<^verbatim>\<open>date\<close> is
  NULL. It converts no text to a number and no number to a text (no comparison of the
  examples calls for it) and reads every text as 0 in arithmetic. Its arithmetic on
  REALs is that of the rationals, which on the values of the examples (whole numbers
  and halves, of a few digits) is the arithmetic of doubles. It visits the rows of the
  join with the orders outermost, and it executes the six statements written out above,
  refusing every other text.
\<close>

definition example_values :: engine where
  "example_values =
     \<lparr>fn_strftime = (\<lambda>fmt v. case (fmt, v) of
          (TEXT f, TEXT s) \<Rightarrow>
             if length s \<noteq> 10 then NULL
             else if f = ''%Y'' then TEXT (take 4 s)
             else if f = ''%m'' then TEXT (take 2 (drop 5 s))
             else if f = ''%Y-%m'' then TEXT (take 7 s)
             else NULL
        | _ \<Rightarrow> NULL),
      fn_date = (\<lambda>v modifier. NULL),
      fn_numeric = (\<lambda>s. TEXT s),
      fn_text = (\<lambda>v. v),
      text_numeric = (\<lambda>s. INTEGER 0),
      fl_sub = (\<lambda>r s. REAL (r - s)),
      fl_mul = (\<lambda>r s. REAL (r * s)),
      fl_div = (\<lambda>r s. REAL (r / s)),
      fn_sum = (\<lambda>vs. REAL (sum_list (map as_rat vs))),
      join_order = (\<lambda>conn js. js),
      fn_execute = (\<lambda>sql conn. Inl Refused)\<rparr>"

definition answer :: "engine \<Rightarrow> string \<Rightarrow> db \<Rightarrow> error + (result \<times> db)" where
  "answer E sql conn =
     bind (if sql = sales_per_category_query then sales_per_category E conn
           else if sql = installments_percentage_query then installments_percentage E conn
           else if sql = percentage_revenue_per_category_query
             then percentage_revenue_per_category E conn
           else if sql = yearly_growth_rate_query then yearly_growth_rate E conn
           else if sql = retention_rate_query then retention_rate E conn
           else if sql = top_customers_per_year_query then top_customers_per_year E conn
           else Inl Refused)
       (\<lambda>r. Inr (r, conn))"

definition example_engine :: engine where
  "example_engine = example_values\<lparr>fn_execute := answer example_values\<rparr>"

text \<open>
  A file whose header has a space and a dot.
\<close>

definition items_csv :: dataframe where
  "items_csv = \<lparr>columns = [(''order id'', Int64), (''unit.price'', Float64)],
                body = [[PyInt 1, NaN], [PyInt 2, PyFloat (5 / 2)]]\<rparr>"

text \<open>
  A store with three orders of the year 2017 by two customers, each order of one
  product; and a store whose single order is of two products of different categories.
  The columns of these tables have no declared type.
\<close>

definition plain :: "string list \<Rightarrow> val list list \<Rightarrow> table" where
  "plain cs rs = \<lparr>schema = map (\<lambda>c. (c, [])) cs, primary_key = [], foreign_keys = [], rows = rs\<rparr>"

definition shop :: db where
  "shop =
     [''customers'' \<mapsto> plain [''customer_id'', ''name'', ''city'', ''state'']
        [[INTEGER 1, TEXT ''Ann'', TEXT ''NY'', TEXT ''NY''],
         [INTEGER 2, TEXT ''Bob'', TEXT ''LA'', TEXT ''CA'']],
      ''orders'' \<mapsto> plain [''order_id'', ''customer_id'', ''order_date'', ''amount'', ''payment_type'']
        [[INTEGER 1, INTEGER 1, TEXT ''2017-01-05'', REAL 10, TEXT ''Installment''],
         [INTEGER 2, INTEGER 1, TEXT ''2017-03-05'', REAL 20, TEXT ''Card''],
         [INTEGER 3, INTEGER 2, TEXT ''2017-03-09'', REAL 30, TEXT ''Card'']],
      ''products'' \<mapsto> plain [''product_id'', ''category'', ''price'']
        [[INTEGER 1, TEXT ''A'', REAL 5], [INTEGER 2, TEXT ''B'', REAL 7]],
      ''order_products'' \<mapsto> plain [''order_id'', ''product_id'']
        [[INTEGER 1, INTEGER 1], [INTEGER 2, INTEGER 1], [INTEGER 3, INTEGER 2]],
      ''sales'' \<mapsto> plain [''seller_id'', ''amount'']
        [[INTEGER 1, REAL 5], [INTEGER 2, REAL 7]]]"

definition bundle_shop :: db where
  "bundle_shop =
     [''orders'' \<mapsto> plain [''order_id'', ''customer_id'', ''order_date'', ''amount'', ''payment_type'']
        [[INTEGER 1, INTEGER 1, TEXT ''2017-01-05'', REAL 10, TEXT ''Card'']],
      ''products'' \<mapsto> plain [''product_id'', ''category'', ''price'']
        [[INTEGER 1, TEXT ''A'', REAL 5], [INTEGER 2, TEXT ''B'', REAL 7]],
      ''order_products'' \<mapsto> plain [''order_id'', ''product_id'']
        [[INTEGER 1, INTEGER 1], [INTEGER 1, INTEGER 2]]]"

text \<open>
  A store whose amounts are whole numbers, each order of one product; and a store in
  which two orders of one category have amounts whose sum does not fit in 64 bits.
\<close>

definition whole_shop :: db where
  "whole_shop =
     [''orders'' \<mapsto> plain [''order_id'', ''customer_id'', ''order_date'', ''amount'', ''payment_type'']
        [[INTEGER 1, INTEGER 1, TEXT ''2017-01-05'', INTEGER 10, TEXT ''Card''],
         [INTEGER 2, INTEGER 1, TEXT ''2017-02-05'', INTEGER 30, TEXT ''Card'']],
      ''products'' \<mapsto> plain [''product_id'', ''category'', ''price'']
        [[INTEGER 1, TEXT ''A'', REAL 5], [INTEGER 2, TEXT ''B'', REAL 7]],
      ''order_products'' \<mapsto> plain [''order_id'', ''product_id'']
        [[INTEGER 1, INTEGER 1], [INTEGER 2, INTEGER 2]]]"

definition heavy_shop :: db where
  "heavy_shop =
     [''orders'' \<mapsto> plain [''order_id'', ''customer_id'', ''order_date'', ''amount'', ''payment_type'']
        [[INTEGER 1, INTEGER 1, TEXT ''2017-01-05'', INTEGER 9223372036854775807, TEXT ''Card''],
         [INTEGER 2, INTEGER 1, TEXT ''2017-02-05'', INTEGER 1, TEXT ''Card'']],
      ''products'' \<mapsto> plain [''product_id'', ''category'', ''price'']
        [[INTEGER 1, TEXT ''A'', REAL 5]],
      ''order_products'' \<mapsto> plain [''order_id'', ''product_id'']
        [[INTEGER 1, INTEGER 1], [INTEGER 2, INTEGER 1]]]"

text \<open>
  A store whose orders table has a column named \<^verbatim>\<open>year\<close> beside the columns that
  the queries read: two orders of one customer, both of the year 2017.
\<close>

definition year_shop :: db where
  "year_shop =
     [''orders'' \<mapsto> plain [''order_id'', ''customer_id'', ''order_date'', ''amount'',
                            ''payment_type'', ''year'']
        [[INTEGER 1, INTEGER 1, TEXT ''2017-01-05'', REAL 10, TEXT ''Card'', TEXT ''a''],
         [INTEGER 2, INTEGER 1, TEXT ''2017-03-05'', REAL 20, TEXT ''Card'', TEXT ''b'']]]"

text \<open>
  The five files of a run of \<^verbatim>\<open>main\<close> in which an order names a customer that the
  customers file does not have, and an order line names an order and a product that no
  file has.
\<close>

definition dangling_files :: files where
  "dangling_files =
     [''customers.csv'' \<mapsto>
        \<lparr>columns = [(''customer_id'', Int64), (''name'', Object), (''city'', Object),
                    (''state'', Object)],
         body = [[PyInt 1, PyStr ''Ann'', PyStr ''NY'', PyStr ''NY'']]\<rparr>,
      ''orders.csv'' \<mapsto>
        \<lparr>columns = [(''order_id'', Int64), (''customer_id'', Int64), (''order_date'', Object),
                    (''amount'', Float64), (''payment_type'', Object)],
         body = [[PyInt 10, PyInt 2, PyStr ''2017-01-05'', PyFloat 50, PyStr ''Card'']]\<rparr>,
      ''products.csv'' \<mapsto>
        \<lparr>columns = [(''product_id'', Object), (''category'', Object), (''price'', Object)],
         body = []\<rparr>,
      ''order_products.csv'' \<mapsto>
        \<lparr>columns = [(''order_id'', Int64), (''product_id'', Int64)],
         body = [[PyInt 11, PyInt 7]]\<rparr>,
      ''sales.csv'' \<mapsto>
        \<lparr>columns = [(''seller_id'', Object), (''amount'', Object)],
         body = []\<rparr>]"

text \<open>The store that the run on those files leaves.\<close>

definition dangling_store :: db where
  "dangling_store =
     [''customers'' \<mapsto>
        \<lparr>schema = [(''customer_id'', ''INTEGER''), (''name'', ''TEXT''), (''city'', ''TEXT''),
                   (''state'', ''TEXT'')],
         primary_key = [], foreign_keys = [],
         rows = [[INTEGER 1, TEXT ''Ann'', TEXT ''NY'', TEXT ''NY'']]\<rparr>,
      ''orders'' \<mapsto>
        \<lparr>schema = [(''order_id'', ''INTEGER''), (''customer_id'', ''INTEGER''),
                   (''order_date'', ''TEXT''), (''amount'', ''REAL''), (''payment_type'', ''TEXT'')],
         primary_key = [], foreign_keys = [],
         rows = [[INTEGER 10, INTEGER 2, TEXT ''2017-01-05'', REAL 50, TEXT ''Card'']]\<rparr>,
      ''products'' \<mapsto>
        \<lparr>schema = [(''product_id'', ''TEXT''), (''category'', ''TEXT''), (''price'', ''TEXT'')],
         primary_key = [], foreign_keys = [], rows = []\<rparr>,
      ''order_products'' \<mapsto>
        \<lparr>schema = [(''order_id'', ''INTEGER''), (''product_id'', ''INTEGER'')],
         primary_key = [], foreign_keys = [],
         rows = [[INTEGER 11, INTEGER 7]]\<rparr>,
      ''sales'' \<mapsto>
        \<lparr>schema = [(''seller_id'', ''TEXT''), (''amount'', ''TEXT'')],
         primary_key = [], foreign_keys = [], rows = []\<rparr>]"

section \<open>Properties of the schema initializer\<close>

lemma bind_Inr [simp]: "bind (Inr x) f = f x"
  by (simp add: bind_def)

lemma bind_Inl [simp]: "bind (Inl e) f = Inl e"
  by (simp add: bind_def)

lemma ident_tables:
  "ident ''customers'' = ''customers''" "ident ''orders'' = ''orders''"
  "ident ''products'' = ''products''" "ident ''order_products'' = ''order_products''"
  "ident ''sales'' = ''sales''"
  by (simp_all add: ident_def lower_def)

lemma create_table_if_not_exists:
  "create_table True n t conn = Inr ([ident n \<mapsto> t] ++ conn)"
  by (auto simp: create_table_def map_add_def fun_eq_iff split: option.split)

lemma create_tables_eq: "create_tables conn = Inr (ddl ++ conn)"
  by (simp add: create_tables_def create_table_if_not_exists ident_tables ddl_def)

lemma dom_ddl: "dom ddl = {''customers'', ''orders'', ''products'', ''order_products'', ''sales''}"
  by (auto simp: ddl_def)

lemma map_add_absorb: "dom m \<subseteq> dom c \<Longrightarrow> m ++ c = c"
  by (auto simp: map_add_def fun_eq_iff split: option.split)

lemma map_add_twice: "m ++ (m ++ c) = m ++ c"
  by (auto simp: map_add_def fun_eq_iff split: option.split)

text \<open>
  Claim C8. \<^const>\<open>create_tables\<close> never fails; on a store where the five tables
  exist it leaves the store as it is; and running it a second time changes nothing that
  the first run left.
\<close>

theorem create_tables_idempotent:
  "(\<exists>conn'. create_tables conn = Inr conn') \<and>
   (conn ''customers'' \<noteq> None \<and> conn ''orders'' \<noteq> None \<and> conn ''products'' \<noteq> None \<and>
    conn ''order_products'' \<noteq> None \<and> conn ''sales'' \<noteq> None \<longrightarrow> create_tables conn = Inr conn) \<and>
   bind (create_tables conn) create_tables = create_tables conn"
proof (intro conjI impI)
  show "\<exists>conn'. create_tables conn = Inr conn'"
    by (simp add: create_tables_eq)
  show "bind (create_tables conn) create_tables = create_tables conn"
    by (simp add: create_tables_eq map_add_twice del: map_add_assoc)
next
  assume "conn ''customers'' \<noteq> None \<and> conn ''orders'' \<noteq> None \<and> conn ''products'' \<noteq> None \<and>
    conn ''order_products'' \<noteq> None \<and> conn ''sales'' \<noteq> None"
  then show "create_tables conn = Inr conn"
    by (simp add: create_tables_eq map_add_absorb dom_ddl domIff)
qed

theorem create_tables_idempotent_witness:
  "ddl ''customers'' \<noteq> None \<and> ddl ''orders'' \<noteq> None \<and> ddl ''products'' \<noteq> None \<and>
   ddl ''order_products'' \<noteq> None \<and> ddl ''sales'' \<noteq> None \<and>
   create_tables ddl = Inr ddl \<and> create_tables Map.empty = Inr ddl"
proof -
  have d: "ddl ''customers'' \<noteq> None \<and> ddl ''orders'' \<noteq> None \<and> ddl ''products'' \<noteq> None \<and>
    ddl ''order_products'' \<noteq> None \<and> ddl ''sales'' \<noteq> None"
    by (simp add: ddl_def)
  have e: "create_tables Map.empty = Inr ddl"
    by (simp add: create_tables_eq)
  from create_tables_idempotent [of ddl] d e show ?thesis by blast
qed

section \<open>Properties of the bulk loaders\<close>

lemma to_sql_twice:
  "bind (to_sql_replace df t conn) (to_sql_replace df t) = to_sql_replace df t conn"
  by (simp add: to_sql_replace_def create_table_def drop_table_def)

text \<open>
  Claim C7. Running the loader twice in succession on the same file and the same table
  gives what one run gives, whatever the store held before: the second run replaces
  the table by the same table, and a run that raises, raises both times. The same holds
  of the second script's loader on every connection on which writing a frame twice
  gives what writing it once gives, as it does on the first script's store.
\<close>

theorem loader_idempotent:
  "bind (load_csv_to_table fs p t conn) (load_csv_to_table fs p t) = load_csv_to_table fs p t conn \<and>
   ((\<forall>df c. bind (to_sql df t c) (to_sql df t) = to_sql df t c) \<longrightarrow>
      bind (process_csv to_sql fs p t conn1) (process_csv to_sql fs p t)
        = process_csv to_sql fs p t conn1)"
proof (cases "fs p")
  case None
  then show ?thesis
    by (simp add: load_csv_to_table_def process_csv_def read_csv_def)
next
  case (Some df)
  then have "load_csv_to_table fs p t = to_sql_replace df t"
    and "process_csv to_sql fs p t = to_sql (clean_columns (where_notnull df)) t"
    by (simp_all add: load_csv_to_table_def process_csv_def read_csv_def fun_eq_iff)
  then show ?thesis by (simp add: to_sql_twice)
qed

theorem loader_idempotent_witness:
  "bind (process_csv to_sql_replace [''items.csv'' \<mapsto> items_csv] ''items.csv'' ''items'' Map.empty)
        (process_csv to_sql_replace [''items.csv'' \<mapsto> items_csv] ''items.csv'' ''items'')
     = process_csv to_sql_replace [''items.csv'' \<mapsto> items_csv] ''items.csv'' ''items'' Map.empty"
  using loader_idempotent [of "[''items.csv'' \<mapsto> items_csv]" "''items.csv''" "''items''"
      Map.empty to_sql_replace Map.empty]
  by (simp add: to_sql_twice)

lemma to_sql_replace_distinct:
  "distinct (map (ident \<circ> fst) (columns df)) \<Longrightarrow>
   to_sql_replace df name conn = Inr (conn(ident name \<mapsto> frame_table df))"
  by (simp add: to_sql_replace_def create_table_def drop_table_def)

lemma ident_examples:
  "ident ''order id'' = ''order id''" "ident ''unit.price'' = ''unit.price''"
  "ident ''items'' = ''items''"
  by (simp_all add: ident_def lower_def)

text \<open>
  Claim C1 fails on the code. The first script's loader writes the columns of the file
  under the names that the header gives them: for a file whose header is
  \<^verbatim>\<open>order id,unit.price\<close> the table it produces has a column name with a space and
  one with a dot. The second script's loader rewrites the same names to
  \<^verbatim>\<open>order_id\<close> and \<^verbatim>\<open>unit_price\<close> before it writes the frame.
\<close>

theorem loader_keeps_names:
  "loaded (load_csv_to_table [''items.csv'' \<mapsto> items_csv] ''items.csv'' ''items'' Map.empty) ''items''
     = Some \<lparr>schema = [(''order id'', ''INTEGER''), (''unit.price'', ''REAL'')],
             primary_key = [], foreign_keys = [],
             rows = [[INTEGER 1, NULL], [INTEGER 2, REAL (5 / 2)]]\<rparr> \<and>
   map fst (columns (clean_columns (where_notnull items_csv))) = [''order_id'', ''unit_price'']"
  by (simp add: load_csv_to_table_def read_csv_def to_sql_replace_distinct loaded_def
      items_csv_def ident_examples frame_table_def clean_columns_def where_notnull_def
      clean_def replace_def)

subsection \<open>The load of the dangling files\<close>

lemma ident_columns:
  "ident ''customer_id'' = ''customer_id''" "ident ''name'' = ''name''" "ident ''city'' = ''city''"
  "ident ''state'' = ''state''" "ident ''order_id'' = ''order_id''"
  "ident ''order_date'' = ''order_date''" "ident ''amount'' = ''amount''"
  "ident ''payment_type'' = ''payment_type''" "ident ''product_id'' = ''product_id''"
  "ident ''category'' = ''category''" "ident ''price'' = ''price''"
  "ident ''seller_id'' = ''seller_id''"
  by (simp_all add: ident_def lower_def)

lemma load_dangling: "load_files dangling_files files_and_tables ddl = Inr dangling_store"
proof -
  have "load_files dangling_files files_and_tables ddl
      = Inr (ddl(''customers'' \<mapsto> frame_table (the (dangling_files ''customers.csv'')),
                 ''orders'' \<mapsto> frame_table (the (dangling_files ''orders.csv'')),
                 ''products'' \<mapsto> frame_table (the (dangling_files ''products.csv'')),
                 ''order_products'' \<mapsto> frame_table (the (dangling_files ''order_products.csv'')),
                 ''sales'' \<mapsto> frame_table (the (dangling_files ''sales.csv''))))"
    by (simp add: files_and_tables_def load_csv_to_table_def read_csv_def dangling_files_def
        to_sql_replace_distinct ident_columns ident_tables)
  also have "\<dots> = Inr dangling_store"
    by (auto simp: dangling_store_def dangling_files_def frame_table_def ddl_def fun_eq_iff)
  finally show ?thesis .
qed

lemma run_dangling:
  "bind (create_tables Map.empty) (load_files dangling_files files_and_tables) = Inr dangling_store"
  by (simp add: create_tables_eq load_dangling)

text \<open>
  Claim C4 fails on the code. \<^const>\<open>create_tables\<close> declares the foreign keys, but
  the loader replaces each table it loads by one without any key, and stores the rows
  of its file as they are. After \<^const>\<open>create_tables\<close> on an empty store and the load
  of the five files below, the only order names customer 2 while the only customer is 1,
  and the only order line names order 11 and product 7, of which there is neither.
\<close>

theorem loader_breaks_references:
  "loaded (bind (create_tables Map.empty) (load_files dangling_files files_and_tables)) ''customers''
     = Some \<lparr>schema = [(''customer_id'', ''INTEGER''), (''name'', ''TEXT''), (''city'', ''TEXT''),
                       (''state'', ''TEXT'')],
             primary_key = [], foreign_keys = [],
             rows = [[INTEGER 1, TEXT ''Ann'', TEXT ''NY'', TEXT ''NY'']]\<rparr> \<and>
   loaded (bind (create_tables Map.empty) (load_files dangling_files files_and_tables)) ''orders''
     = Some \<lparr>schema = [(''order_id'', ''INTEGER''), (''customer_id'', ''INTEGER''),
                       (''order_date'', ''TEXT''), (''amount'', ''REAL''),
                       (''payment_type'', ''TEXT'')],
             primary_key = [], foreign_keys = [],
             rows = [[INTEGER 10, INTEGER 2, TEXT ''2017-01-05'', REAL 50, TEXT ''Card'']]\<rparr> \<and>
   loaded (bind (create_tables Map.empty) (load_files dangling_files files_and_tables)) ''products''
     = Some \<lparr>schema = [(''product_id'', ''TEXT''), (''category'', ''TEXT''), (''price'', ''TEXT'')],
             primary_key = [], foreign_keys = [], rows = []\<rparr> \<and>
   loaded (bind (create_tables Map.empty) (load_files dangling_files files_and_tables))
       ''order_products''
     = Some \<lparr>schema = [(''order_id'', ''INTEGER''), (''product_id'', ''INTEGER'')],
             primary_key = [], foreign_keys = [],
             rows = [[INTEGER 11, INTEGER 7]]\<rparr>"
  by (simp add: run_dangling loaded_def ident_tables dangling_store_def)


end
